theory Spec2Isabelle
  imports Main
begin

section \<open>Strings\<close>

text \<open>
  A JavaScript string is a sequence of UTF-16 code units. The model is \<open>string\<close>, a list
  of \<open>char\<close>; a \<open>char\<close> stands for the code unit of the same number (0 to 255, the Latin-1
  range), \<open>length\<close> counts code units as \<open>s.length\<close> does, and \<open>take n\<close> is \<open>s.slice(0, n)\<close>.
  Code units from 256 on are outside the model.
\<close>

definition isSpace :: "char \<Rightarrow> bool" where
  \<comment> \<open>The class \<open>\s\<close> of a regular expression, which is also what \<open>trim()\<close> removes:
      tab, line feed, vertical tab, form feed, carriage return, space, no-break space.\<close>
  "isSpace c = (c = CHR 0x09 \<or> c = CHR 0x0A \<or> c = CHR 0x0B \<or> c = CHR 0x0C \<or> c = CHR 0x0D
                \<or> c = CHR 0x20 \<or> c = CHR 0xA0)"

definition toLowerChar :: "char \<Rightarrow> char" where
  \<comment> \<open>\<open>A\<close> to \<open>Z\<close>, and the Latin-1 capitals U+00C0 to U+00DE but the sign U+00D7.\<close>
  "toLowerChar c =
     (let n = (of_char c :: nat)
      in if (0x41 \<le> n \<and> n \<le> 0x5A) \<or> (0xC0 \<le> n \<and> n \<le> 0xDE \<and> n \<noteq> 0xD7)
         then char_of (n + 0x20) else c)"

definition toLowerCase :: "string \<Rightarrow> string" where
  "toLowerCase s = map toLowerChar s"

definition trim :: "string \<Rightarrow> string" where
  "trim s = rev (dropWhile isSpace (rev (dropWhile isSpace s)))"

definition isLabelChar :: "char \<Rightarrow> bool" where
  \<comment> \<open>The class \<open>[a-z0-9-]\<close>.\<close>
  "isLabelChar c =
     (let n = (of_char c :: nat)
      in (0x61 \<le> n \<and> n \<le> 0x7A) \<or> (0x30 \<le> n \<and> n \<le> 0x39) \<or> n = 0x2D)"

definition stripLeadingDot :: "string \<Rightarrow> string" where
  \<comment> \<open>\<open>s.replace(LEADING_DOT_RE, "")\<close> with \<open>LEADING_DOT_RE = /^\./\<close>: one leading dot.\<close>
  "stripLeadingDot s = (case s of [] \<Rightarrow> [] | c # cs \<Rightarrow> if c = CHR ''.'' then cs else s)"

definition stripSurroundingQuotes :: "string \<Rightarrow> string" where
  \<comment> \<open>\<open>s.replace(SURROUNDING_QUOTE_RE, "")\<close> with \<open>SURROUNDING_QUOTE_RE = /^"|"$/g\<close>: a double
      quote (code unit 0x22) at the start, then one at the end of what is left.\<close>
  "stripSurroundingQuotes s =
     (let s1 = (case s of [] \<Rightarrow> [] | c # cs \<Rightarrow> if c = CHR 0x22 then cs else s)
      in if s1 \<noteq> [] \<and> last s1 = CHR 0x22 then butlast s1 else s1)"

definition stripLeadingDots :: "string \<Rightarrow> string" where
  \<comment> \<open>\<open>s.replace(LEADING_DOTS_RE, "")\<close> with \<open>LEADING_DOTS_RE = /^\.+/\<close>.\<close>
  "stripLeadingDots s = dropWhile (\<lambda>c. c = CHR ''.'') s"

definition removeWhitespace :: "string \<Rightarrow> string" where
  \<comment> \<open>\<open>s.replace(WHITESPACE_RE, "")\<close> with \<open>WHITESPACE_RE = /\s+/\<close>. The expression has no
      \<open>g\<close> flag, so \<open>replace\<close> removes the leftmost run of whitespace and nothing after it.\<close>
  "removeWhitespace s =
     takeWhile (\<lambda>c. \<not> isSpace c) s @ dropWhile isSpace (dropWhile (\<lambda>c. \<not> isSpace c) s)"

definition testWhitespace :: "string \<Rightarrow> bool" where
  \<comment> \<open>\<open>WHITESPACE_RE.test(s)\<close>: \<open>s\<close> has a whitespace code unit.\<close>
  "testWhitespace s = list_ex isSpace s"

definition removeNonLabel :: "string \<Rightarrow> string" where
  \<comment> \<open>\<open>s.replace(NON_LABEL_RE, "")\<close> with \<open>NON_LABEL_RE = /[^a-z0-9-]/g\<close>.\<close>
  "removeNonLabel s = filter isLabelChar s"

definition trimHyphens :: "string \<Rightarrow> string" where
  \<comment> \<open>\<open>s.replace(TRIM_HYPHEN_RE, "")\<close> with \<open>TRIM_HYPHEN_RE = /^-+|-+$/g\<close>.\<close>
  "trimHyphens s =
     rev (dropWhile (\<lambda>c. c = CHR ''-'') (rev (dropWhile (\<lambda>c. c = CHR ''-'') s)))"

definition orElse :: "string \<Rightarrow> string \<Rightarrow> string" where
  \<comment> \<open>\<open>a || b\<close> on strings: the empty string is the only falsy one.\<close>
  "orElse a b = (if a \<noteq> [] then a else b)"

section \<open>The label of a generated title\<close>

definition domainLabelFromTitle :: "string \<Rightarrow> string" where
  "domainLabelFromTitle input =
     (if input = [] then []
      else
        let s = trim (toLowerCase input);
            s = stripSurroundingQuotes s;
            s = stripLeadingDots s;
            s = removeWhitespace s;
            s = removeNonLabel s;
            s = trimHyphens s
        in if length s > 63 then take 63 s else s)"


section \<open>Values of the JSON payloads\<close>

text \<open>
  What \<open>res.json()\<close> and the providers hand over: a JavaScript value. An object is the list of
  its own properties (a key stands for its first entry). Numbers are not inspected by the code
  of this development beyond their being primitives; they are integers here.
\<close>

datatype json =
    JNull
  | JUndefined
  | JBool bool
  | JNum int
  | JStr string
  | JArr "json list"
  | JObj "(string \<times> json) list"

datatype js_error = Error string
  \<comment> \<open>A thrown value, by the message the handler reports:
      \<open>err instanceof Error ? err.message : String(err)\<close>.\<close>

fun message :: "js_error \<Rightarrow> string" where
  "message (Error m) = m"

fun truthy :: "json \<Rightarrow> bool" where
  "truthy JNull = False"
| "truthy JUndefined = False"
| "truthy (JBool b) = b"
| "truthy (JNum n) = (n \<noteq> 0)"
| "truthy (JStr s) = (s \<noteq> [])"
| "truthy (JArr xs) = True"
| "truthy (JObj kvs) = True"

fun typeofObject :: "json \<Rightarrow> bool" where
  \<comment> \<open>\<open>typeof v === "object"\<close>: true of \<open>null\<close>, of arrays and of objects.\<close>
  "typeofObject JNull = True"
| "typeofObject (JArr xs) = True"
| "typeofObject (JObj kvs) = True"
| "typeofObject v = False"

fun getProp :: "json \<Rightarrow> string \<Rightarrow> js_error + json" where
  \<comment> \<open>\<open>v.key\<close> for a key that is no built-in property of arrays or strings (the code reads
      \<open>results\<close> and \<open>domains\<close> only): a TypeError on \<open>null\<close> and \<open>undefined\<close>, the own
      property of an object, \<open>undefined\<close> everywhere else.\<close>
  "getProp JNull k =
     Inl (Error (''Cannot read properties of null (reading '' @ [CHR 0x27] @ k @ [CHR 0x27] @ '')''))"
| "getProp JUndefined k =
     Inl (Error (''Cannot read properties of undefined (reading '' @ [CHR 0x27] @ k @ [CHR 0x27]
                 @ '')''))"
| "getProp (JObj kvs) k = Inr (case map_of kvs k of None \<Rightarrow> JUndefined | Some v \<Rightarrow> v)"
| "getProp v k = Inr JUndefined"

section \<open>The client: normalizeDomainPayload\<close>

fun firstArray :: "json list \<Rightarrow> json list option" where
  \<comment> \<open>The loop \<open>for (const c of candidates) if (Array.isArray(c)) return c\<close>; \<open>None\<close> when
      the loop ends without returning.\<close>
  "firstArray [] = None"
| "firstArray (JArr xs # cs) = Some xs"
| "firstArray (c # cs) = firstArray cs"

definition normalizeDomainPayload :: "json \<Rightarrow> js_error + json list" where
  "normalizeDomainPayload payload =
     (case payload of
        JArr xs \<Rightarrow> Inr xs
      | _ \<Rightarrow>
        if truthy payload \<and> typeofObject payload then
          (case getProp payload ''results'' of
             Inl e \<Rightarrow> Inl e
           | Inr results \<Rightarrow>
          (case getProp payload ''domains'' of
             Inl e \<Rightarrow> Inl e
           | Inr domains \<Rightarrow>
          (case (if truthy domains \<and> typeofObject domains
                 then getProp domains ''results'' else Inr JUndefined) of
             Inl e \<Rightarrow> Inl e
           | Inr nested \<Rightarrow>
          (case firstArray [results, domains, nested] of
             Some xs \<Rightarrow> Inr xs
           | None \<Rightarrow> Inr [payload]))))
        else Inr [])"

section \<open>The server: candidate TLDs\<close>

definition COMMON :: "string list" where
  "COMMON = [''com'', ''net'', ''org'', ''dev'', ''io'', ''app'', ''ai'', ''co'', ''xyz'', ''tech'',
             ''site'', ''online'', ''me'', ''info'', ''store'']"

fun preferredLoop :: "string list \<Rightarrow> string list \<Rightarrow> string list \<Rightarrow> string list" where
  \<comment> \<open>\<open>for (const c of COMMON) if (tlds.includes(c) && !preferred.includes(c)) preferred.push(c)\<close>,
      from the entries of \<open>COMMON\<close> still to visit and the \<open>preferred\<close> built so far.\<close>
  "preferredLoop tlds [] preferred = preferred"
| "preferredLoop tlds (c # cs) preferred =
     preferredLoop tlds cs
       (if c \<in> set tlds \<and> c \<notin> set preferred then preferred @ [c] else preferred)"

definition pickCandidateTlds :: "string list \<Rightarrow> nat \<Rightarrow> string list" where
  \<comment> \<open>\<open>limit\<close> is a count: the callers pass 50 and 25, and \<open>slice(0, limit)\<close> is \<open>take limit\<close>.\<close>
  "pickCandidateTlds tlds limit =
     (let preferred = preferredLoop tlds COMMON [];
          rest = filter (\<lambda>t. t \<notin> set preferred) tlds
      in take limit (preferred @ rest))"

section \<open>The server: label, TLD list and request handlers\<close>

text \<open>
  The module state is the two caches. The providers are parameters of a request: what the
  text generation, the supported-TLD call and the bulk availability call answer (\<open>Inl\<close>: the
  call throws or its promise rejects), and what \<open>Date.now()\<close> reads. Every function returns the
  calls it made, in the order it made them.
\<close>

datatype call =
    Generate string
  | SupportedTlds "string option"
  | BulkAvailability "string option" "string list"

datatype tlds_answer = NotAnArray | TldArray "string list"
  \<comment> \<open>What \<open>vercel.domainsRegistrar.getSupportedTlds\<close> resolves to: an array (of strings, so
      that \<open>String(t)\<close> is \<open>t\<close>) or something else.\<close>

type_synonym label_cache = "string \<rightharpoonup> string \<times> int"

record server_state =
  labelCache :: label_cache
  tldsCache :: "(string list \<times> int) option"

record env =
  generateText :: "string \<Rightarrow> js_error + string"
  supportedTlds :: "string option \<Rightarrow> js_error + tlds_answer"
  bulkAvailabilityOf :: "string option \<Rightarrow> string list \<Rightarrow> js_error + json"
  nowLabel :: int
  nowTlds :: int
  nowTldsStored :: int

definition LABEL_CACHE_TTL :: int where
  "LABEL_CACHE_TTL = 1000 * 60 * 10"

definition TLDS_CACHE_TTL :: int where
  "TLDS_CACHE_TTL = 1000 * 60 * 5"

definition generateChatTitleInstructions :: string where
  "generateChatTitleInstructions =
     ''Generate a short, brandable domain phrase (max 30 characters) inspired by the context. ''
     @ ''Make it sound like a real domain concept (e.g. reorder or merge words such as ''
     @ [CHR 0x22] @ ''mydogparty'' @ [CHR 0x22]
     @ ''), keep it lowercase, avoid quotes or special characters, and never append TLDs. ''
     @ ''If the context is vague, invent an appealing domainable idea.''"

definition promptOf :: "string \<Rightarrow> string" where
  "promptOf originalQ =
     generateChatTitleInstructions @ [CHR 0x0A, CHR 0x0A] @ ''<context>'' @ [CHR 0x0A]
     @ take 500 originalQ @ [CHR 0x0A] @ ''</context>''"

definition fallbackOf :: "string \<Rightarrow> string \<Rightarrow> string" where
  \<comment> \<open>\<open>normalizedQ.replace(WHITESPACE_RE, "") || fallbackLabel\<close>\<close>
  "fallbackOf normalizedQ fallbackLabel = orElse (removeWhitespace normalizedQ) fallbackLabel"

definition labelOfTitle :: "string \<Rightarrow> string" where
  \<comment> \<open>From the generated \<open>title\<close> to \<open>label\<close>: \<open>cleaned\<close>, \<open>finalTitle\<close>, \<open>domainLabelFromTitle\<close>.\<close>
  "labelOfTitle title =
     (let cleaned = stripSurroundingQuotes (trim title);
          finalTitle = (if length cleaned > 30 then trim (take 27 cleaned) @ ''...'' else cleaned)
      in domainLabelFromTitle finalTitle)"

definition generateLabel ::
  "(string \<Rightarrow> js_error + string) \<Rightarrow> int \<Rightarrow> label_cache \<Rightarrow> string \<Rightarrow> string \<Rightarrow> string
     \<Rightarrow> string \<times> label_cache \<times> call list" where
  \<comment> \<open>The \<open>try\<close>/\<open>catch\<close> of \<open>getSearchLabelFromQuery\<close>, reached on a cache miss.\<close>
  "generateLabel gen now cache originalQ normalizedQ fallbackLabel =
     (let prompt = promptOf originalQ in
      case gen prompt of
        Inr title \<Rightarrow>
          let label = labelOfTitle title in
          if label \<noteq> [] then (label, cache(originalQ \<mapsto> (label, now)), [Generate prompt])
          else
            let fallback = fallbackOf normalizedQ fallbackLabel
            in (fallback, cache(originalQ \<mapsto> (fallback, now)), [Generate prompt])
      | Inl e \<Rightarrow>
          let fallback = fallbackOf normalizedQ fallbackLabel
          in (fallback, cache(originalQ \<mapsto> (fallback, now)), [Generate prompt]))"

definition getSearchLabelFromQuery ::
  "(string \<Rightarrow> js_error + string) \<Rightarrow> int \<Rightarrow> label_cache \<Rightarrow> string \<Rightarrow> string \<Rightarrow> string
     \<Rightarrow> string \<times> label_cache \<times> call list" where
  "getSearchLabelFromQuery gen now cache originalQ normalizedQ fallbackLabel =
     (if \<not> testWhitespace originalQ then (normalizedQ, cache, [])
      else
        case cache originalQ of
          Some (label, ts) \<Rightarrow>
            if now - ts < LABEL_CACHE_TTL then (label, cache, [])
            else generateLabel gen now cache originalQ normalizedQ fallbackLabel
        | None \<Rightarrow> generateLabel gen now cache originalQ normalizedQ fallbackLabel)"

definition cleanTlds :: "tlds_answer \<Rightarrow> string list" where
  \<comment> \<open>\<open>Array.isArray(supported) ? supported.map(...).filter(Boolean) : []\<close>\<close>
  "cleanTlds supported =
     (case supported of
        TldArray ts \<Rightarrow> filter (\<lambda>t. t \<noteq> []) (map stripLeadingDot ts)
      | NotAnArray \<Rightarrow> [])"

definition getSupportedTlds ::
  "env \<Rightarrow> (string list \<times> int) option \<Rightarrow> string option
     \<Rightarrow> (js_error + string list) \<times> (string list \<times> int) option \<times> call list" where
  "getSupportedTlds e cache teamId =
     (let fetch = (case supportedTlds e teamId of
                     Inl err \<Rightarrow> (Inl err, cache, [SupportedTlds teamId])
                   | Inr supported \<Rightarrow>
                       let tlds = cleanTlds supported
                       in (Inr tlds, Some (tlds, nowTldsStored e), [SupportedTlds teamId]))
      in case cache of
           Some (tlds, ts) \<Rightarrow> if nowTlds e - ts < TLDS_CACHE_TTL then (Inr tlds, cache, []) else fetch
         | None \<Rightarrow> fetch)"

definition looksLikeDomainOf :: "string \<Rightarrow> bool" where
  \<comment> \<open>\<open>q.includes(".") && !q.includes(" ")\<close>\<close>
  "looksLikeDomainOf q = (CHR ''.'' \<in> set q \<and> CHR '' '' \<notin> set q)"

definition buildDomainsToCheck :: "bool \<Rightarrow> string \<Rightarrow> string \<Rightarrow> string list \<Rightarrow> string list" where
  "buildDomainsToCheck looksLikeDomain normalizedQ searchLabel tlds =
     (if looksLikeDomain then [normalizedQ]
      else map (\<lambda>t. searchLabel @ ''.'' @ t) (pickCandidateTlds tlds 25))"

datatype field = Absent | NotAString | Str string
  \<comment> \<open>A field of the request body as the handler reads it: \<open>typeof body.q === "string"\<close>.\<close>

datatype request_body = InvalidJson | JsonNull | JsonValue field field
  \<comment> \<open>\<open>request.json()\<close>: it rejects (the handler goes on with \<open>{}\<close>), gives \<open>null\<close>, or
      gives a value whose \<open>q\<close> and \<open>teamId\<close> are the two fields.\<close>

record response =
  status :: nat
  body :: json

definition jsonDomains :: "json \<Rightarrow> response" where
  \<comment> \<open>\<open>NextResponse.json({ domains })\<close>\<close>
  "jsonDomains v = \<lparr>status = 200, body = JObj [(''domains'', v)]\<rparr>"

definition jsonError :: "js_error \<Rightarrow> response" where
  \<comment> \<open>\<open>NextResponse.json({ error: message }, { status: 500 })\<close>\<close>
  "jsonError e = \<lparr>status = 500, body = JObj [(''error'', JStr (message e))]\<rparr>"

definition readBody :: "request_body \<Rightarrow> js_error + string \<times> string option" where
  \<comment> \<open>\<open>q\<close> and \<open>teamId\<close> of the body; reading \<open>body.q\<close> of \<open>null\<close> throws.\<close>
  "readBody b =
     (case (case b of
              InvalidJson \<Rightarrow> Inr (Absent, Absent)
            | JsonNull \<Rightarrow>
                Inl (Error (''Cannot read properties of null (reading '' @ [CHR 0x27] @ ''q''
                            @ [CHR 0x27] @ '')''))
            | JsonValue qf tf \<Rightarrow> Inr (qf, tf)) of
        Inl e \<Rightarrow> Inl e
      | Inr (qf, tf) \<Rightarrow>
          Inr ((case qf of Str s \<Rightarrow> toLowerCase (trim s) | _ \<Rightarrow> []),
               (case tf of Str t \<Rightarrow> if t \<noteq> [] then Some t else None | _ \<Rightarrow> None)))"

definition POST :: "env \<Rightarrow> server_state \<Rightarrow> request_body \<Rightarrow> response \<times> server_state \<times> call list" where
  \<comment> \<open>The handler with label generation. \<open>Promise.all\<close> starts the label first, then the TLD
      list; the two touch different caches, and the state returned is the one after both
      have settled.\<close>
  "POST e st b =
     (case readBody b of
        Inl err \<Rightarrow> (jsonError err, st, [])
      | Inr (q, teamId) \<Rightarrow>
          if q = [] then (jsonDomains (JArr []), st, [])
          else
            let normalizedQ = stripLeadingDot q;
                (searchLabel, lc, calls1) =
                   getSearchLabelFromQuery (generateText e) (nowLabel e) (labelCache st) q normalizedQ [];
                (tldsR, tc, calls2) = getSupportedTlds e (tldsCache st) teamId;
                st' = \<lparr>labelCache = lc, tldsCache = tc\<rparr>
            in (case tldsR of
                  Inl err \<Rightarrow> (jsonError err, st', calls1 @ calls2)
                | Inr tlds \<Rightarrow>
                    let looksLikeDomain = looksLikeDomainOf q;
                        domainsToCheck = buildDomainsToCheck looksLikeDomain normalizedQ searchLabel tlds
                    in (case bulkAvailabilityOf e teamId domainsToCheck of
                          Inl err \<Rightarrow>
                            (jsonError err, st', calls1 @ calls2 @ [BulkAvailability teamId domainsToCheck])
                        | Inr availability \<Rightarrow>
                            (jsonDomains availability, st',
                             calls1 @ calls2 @ [BulkAvailability teamId domainsToCheck]))))"

definition POST_plain :: "env \<Rightarrow> request_body \<Rightarrow> response \<times> call list" where
  \<comment> \<open>The handler without label generation and without caches: the TLD list is fetched on
      every request, and the candidates are \<open>pickCandidateTlds(tlds, 50)\<close>.\<close>
  "POST_plain e b =
     (case readBody b of
        Inl err \<Rightarrow> (jsonError err, [])
      | Inr (q, teamId) \<Rightarrow>
          if q = [] then (jsonDomains (JArr []), [])
          else
            let normalizedQ = stripLeadingDot q
            in (case supportedTlds e teamId of
                  Inl err \<Rightarrow> (jsonError err, [SupportedTlds teamId])
                | Inr supported \<Rightarrow>
                    let tlds = cleanTlds supported;
                        looksLikeDomain = looksLikeDomainOf q;
                        domainsToCheck =
                          (if looksLikeDomain then [normalizedQ]
                           else map (\<lambda>t. normalizedQ @ ''.'' @ t) (pickCandidateTlds tlds 50))
                    in (case bulkAvailabilityOf e teamId domainsToCheck of
                          Inl err \<Rightarrow>
                            (jsonError err, [SupportedTlds teamId, BulkAvailability teamId domainsToCheck])
                        | Inr availability \<Rightarrow>
                            (jsonDomains availability,
                             [SupportedTlds teamId, BulkAvailability teamId domainsToCheck]))))"

section \<open>The client: the search coordinator\<close>

text \<open>
  The component \<open>Home\<close> as a state machine. The state holds the React state (\<open>q\<close>,
  \<open>results\<close>, \<open>loading\<close>), the refs (\<open>searchCacheRef\<close>, \<open>debounceRef\<close>, \<open>fetchAbortRef\<close>), the
  \<open>q\<close> parameter of the page URL, and what is under way outside the component: the calls of
  \<open>runSearch\<close> that await \<open>fetchDomains\<close>, the controllers aborted so far, and the requests
  sent to \<open>/api/search\<close>. A controller is a number. An event is a change of the input (the
  \<open>setQ\<close> of \<open>onChange\<close>, with the render and the effect that follow it at once), the
  \<open>inputgroup:clear\<close> signal (the window listener \<open>onClear\<close> alone), the render that follows
  the listener's \<open>setQ("")\<close> with its effect, the expiry of the debounce timer, or the settling
  of a fetch; the handlers of this single-threaded component run one after the other, each to
  its end or to its \<open>await\<close>. The listener and the render after it are two events: what the
  listener aborts can settle between them.
\<close>

datatype fetch_outcome = Answered json | NetworkError
  \<comment> \<open>\<open>fetch\<close> and \<open>res.json()\<close> give a value, or one of them rejects.\<close>

record client =
  q :: string
  results :: "json list"
  loading :: bool
  urlQ :: "string option"
  searchCache :: "string \<rightharpoonup> json list \<times> int"
  debounceRef :: "string option"
  fetchAbortRef :: "nat option"
  inFlight :: "(nat \<times> string) list"
  abortedControllers :: "nat list"
  nextController :: nat
  sent :: "string list"
  pendingQ :: "string option"

text \<open>
  \<open>debounceRef\<close> is the pending timer, by the \<open>q\<close> its callback closes over (\<open>None\<close>: no timer is
  pending; clearing a timer that has fired does nothing). \<open>inFlight\<close> lists the awaiting calls
  of \<open>runSearch\<close> by controller and \<open>original\<close>; \<open>sent\<close> lists the \<open>q\<close> of every request, oldest
  first. \<open>pendingQ\<close> is the value the listener passed to \<open>setQ\<close> and that no render has taken
  up yet. \<open>setResults\<close> and \<open>setLoading\<close> are written at their call: no code reads \<open>results\<close>
  or \<open>loading\<close> before the next render.
\<close>

definition SEARCH_CACHE_TTL :: int where
  "SEARCH_CACHE_TTL = 1000 * 60 * 2"

definition nullish :: "json \<Rightarrow> bool" where
  "nullish v = (v = JNull \<or> v = JUndefined)"

definition payloadOf :: "json \<Rightarrow> json" where
  \<comment> \<open>\<open>data?.domains ?? data ?? []\<close>\<close>
  "payloadOf data =
     (let domains = (if nullish data then JUndefined
                     else case getProp data ''domains'' of Inr v \<Rightarrow> v | Inl e \<Rightarrow> JUndefined)
      in if nullish domains then (if nullish data then JArr [] else data) else domains)"

definition fetchDomains :: "bool \<Rightarrow> fetch_outcome \<Rightarrow> json list" where
  \<comment> \<open>What \<open>fetchDomains\<close> resolves to: \<open>[]\<close> from its \<open>catch\<close>, on the AbortError of an aborted
      signal as on every other error.\<close>
  "fetchDomains aborted outcome =
     (if aborted then []
      else case outcome of
             NetworkError \<Rightarrow> []
           | Answered data \<Rightarrow>
               (case normalizeDomainPayload (payloadOf data) of Inl e \<Rightarrow> [] | Inr r \<Rightarrow> r))"

definition getCachedSearch :: "int \<Rightarrow> (string \<rightharpoonup> json list \<times> int) \<Rightarrow> string \<Rightarrow> json list option" where
  "getCachedSearch now cache s =
     (case cache s of
        Some (r, ts) \<Rightarrow> if now - ts < SEARCH_CACHE_TTL then Some r else None
      | None \<Rightarrow> None)"

definition updateUrl :: "string \<Rightarrow> string option" where
  \<comment> \<open>The \<open>q\<close> parameter after \<open>updateUrl(s)\<close>.\<close>
  "updateUrl s = (if s \<noteq> [] then Some s else None)"

definition abortCurrent :: "client \<Rightarrow> nat list" where
  \<comment> \<open>\<open>if (fetchAbortRef.current) fetchAbortRef.current.abort()\<close>\<close>
  "abortCurrent c =
     (case fetchAbortRef c of
        Some k \<Rightarrow> abortedControllers c @ [k]
      | None \<Rightarrow> abortedControllers c)"

definition runSearch :: "int \<Rightarrow> string \<Rightarrow> nat \<Rightarrow> client \<Rightarrow> client" where
  \<comment> \<open>\<open>runSearch(original, controller)\<close> up to its \<open>await\<close>: the cached results (an array, so
      truthy) end the call; otherwise the request is sent.\<close>
  "runSearch now original k c =
     (case getCachedSearch now (searchCache c) original of
        Some cached \<Rightarrow> c\<lparr>results := cached, loading := False, urlQ := updateUrl original\<rparr>
      | None \<Rightarrow> c\<lparr>inFlight := inFlight c @ [(k, original)], sent := sent c @ [original]\<rparr>)"

definition fetchSettles :: "nat \<Rightarrow> fetch_outcome \<Rightarrow> int \<Rightarrow> client \<Rightarrow> client" where
  \<comment> \<open>\<open>runSearch\<close> from its \<open>await\<close> on, for the call that holds controller \<open>k\<close>; \<open>now\<close> is the
      \<open>Date.now()\<close> of the cache entry.\<close>
  "fetchSettles k outcome now c =
     (case map_of (inFlight c) k of
        None \<Rightarrow> c
      | Some original \<Rightarrow>
          let r = fetchDomains (k \<in> set (abortedControllers c)) outcome
          in c\<lparr>inFlight := filter (\<lambda>p. fst p \<noteq> k) (inFlight c),
                searchCache := (searchCache c)(original \<mapsto> (r, now)),
                fetchAbortRef := (if fetchAbortRef c = Some k then None else fetchAbortRef c),
                results := r,
                loading := False,
                urlQ := updateUrl original\<rparr>)"

definition resetSearch :: "client \<Rightarrow> client" where
  \<comment> \<open>The statements the empty-query branch of the effect and \<open>onClear\<close> share: clear the
      timer, abort the request, empty the results, stop loading, delete \<open>q\<close> from the URL.\<close>
  "resetSearch c =
     c\<lparr>debounceRef := None,
       abortedControllers := abortCurrent c,
       fetchAbortRef := None,
       results := [],
       loading := False,
       urlQ := None\<rparr>"

definition queryEffect :: "client \<Rightarrow> client" where
  \<comment> \<open>The effect on \<open>[q, runSearch]\<close>: the pending timer is cleared; an empty \<open>q\<close> resets, any
      other sets \<open>loading\<close> and starts the 300 ms timer.\<close>
  "queryEffect c =
     (if q c = [] then resetSearch c
      else c\<lparr>loading := True, debounceRef := Some (q c)\<rparr>)"

definition setQ :: "string \<Rightarrow> client \<Rightarrow> client" where
  \<comment> \<open>\<open>setQ(v)\<close> and the render after it; React runs no effect when the value is unchanged.\<close>
  "setQ v c = (if v = q c then c else queryEffect (c\<lparr>q := v\<rparr>))"

definition onClear :: "client \<Rightarrow> client" where
  \<comment> \<open>The listener of \<open>inputgroup:clear\<close>; its \<open>setQ("")\<close> waits for the next render.\<close>
  "onClear c = (resetSearch c)\<lparr>pendingQ := Some []\<rparr>"

definition render :: "client \<Rightarrow> client" where
  \<comment> \<open>The render that takes up the pending \<open>setQ\<close>, and the effect after it.\<close>
  "render c =
     (case pendingQ c of
        None \<Rightarrow> c
      | Some v \<Rightarrow> setQ v (c\<lparr>pendingQ := None\<rparr>))"

definition debounceFires :: "int \<Rightarrow> client \<Rightarrow> client" where
  \<comment> \<open>The timer's callback: abort the previous controller, make a new one, call
      \<open>runSearch\<close>; \<open>now\<close> is the \<open>Date.now()\<close> of \<open>runSearch\<close>.\<close>
  "debounceFires now c =
     (case debounceRef c of
        None \<Rightarrow> c
      | Some v \<Rightarrow>
          let k = nextController c
          in runSearch now v k
               (c\<lparr>debounceRef := None,
                  abortedControllers := abortCurrent c,
                  fetchAbortRef := Some k,
                  nextController := k + 1\<rparr>))"

datatype event =
    SetQ string
  | ClearSignal
  | Render
  | DebounceFires int
  | FetchSettles nat fetch_outcome int

fun step :: "client \<Rightarrow> event \<Rightarrow> client" where
  "step c (SetQ v) = setQ v (c\<lparr>pendingQ := None\<rparr>)"
| "step c ClearSignal = onClear c"
| "step c Render = render c"
| "step c (DebounceFires now) = debounceFires now c"
| "step c (FetchSettles k outcome now) = fetchSettles k outcome now c"

definition run :: "client \<Rightarrow> event list \<Rightarrow> client" where
  "run c es = foldl step c es"

definition mounted :: client where
  \<comment> \<open>The component after mounting on a URL without \<open>q\<close>.\<close>
  "mounted =
     \<lparr>q = [], results = [], loading = False, urlQ = None, searchCache = Map.empty,
      debounceRef = None, fetchAbortRef = None, inFlight = [], abortedControllers = [],
      nextController = 0, sent = [], pendingQ = None\<rparr>"

section \<open>Concrete inputs\<close>

definition emptyState :: server_state where
  "emptyState = \<lparr>labelCache = Map.empty, tldsCache = None\<rparr>"

definition envGenerationDown :: env where
  \<comment> \<open>The text generation throws; the registrar answers.\<close>
  "envGenerationDown =
     \<lparr>generateText = (\<lambda>p. Inl (Error ''gateway unavailable'')),
      supportedTlds = (\<lambda>t. Inr (TldArray [''io'', ''.net'', ''com''])),
      bulkAvailabilityOf = (\<lambda>t ds. Inr (JArr (map JStr ds))),
      nowLabel = 1000, nowTlds = 1000, nowTldsStored = 1001\<rparr>"

definition envAllUp :: env where
  \<comment> \<open>Every provider answers.\<close>
  "envAllUp =
     \<lparr>generateText = (\<lambda>p. Inr ''My Cool Idea!!''),
      supportedTlds = (\<lambda>t. Inr (TldArray [''io'', ''.net'', ''com''])),
      bulkAvailabilityOf = (\<lambda>t ds. Inr (JArr (map JStr ds))),
      nowLabel = 1000, nowTlds = 1000, nowTldsStored = 1001\<rparr>"

definition envTldsDown :: env where
  \<comment> \<open>The supported-TLD call rejects.\<close>
  "envTldsDown =
     \<lparr>generateText = (\<lambda>p. Inr ''Cool Idea''),
      supportedTlds = (\<lambda>t. Inl (Error ''registrar unavailable'')),
      bulkAvailabilityOf = (\<lambda>t ds. Inr (JArr (map JStr ds))),
      nowLabel = 1000, nowTlds = 1000, nowTldsStored = 1001\<rparr>"

definition envBulkDown :: env where
  \<comment> \<open>The bulk availability call rejects.\<close>
  "envBulkDown =
     \<lparr>generateText = (\<lambda>p. Inr ''Cool Idea''),
      supportedTlds = (\<lambda>t. Inr (TldArray [''io'', ''.net'', ''com''])),
      bulkAvailabilityOf = (\<lambda>t ds. Inl (Error ''bad response'')),
      nowLabel = 1000, nowTlds = 1000, nowTldsStored = 1001\<rparr>"

definition tabQuery :: string where
  \<comment> \<open>\<open>"a.b\tc"\<close>: a dot, a tab, no space.\<close>
  "tabQuery = ''a.b'' @ [CHR 0x09] @ ''c''"


definition catsAnswer :: fetch_outcome where
  "catsAnswer =
     Answered (JObj [(''domains'', JArr [JObj [(''domain'', JStr ''cats.com''), (''available'', JBool True)]])])"

definition dogsAnswer :: fetch_outcome where
  "dogsAnswer =
     Answered (JObj [(''domains'', JArr [JObj [(''domain'', JStr ''dogs.com''), (''available'', JBool False)]])])"

definition supersededTrace :: "event list" where
  \<comment> \<open>\<open>cats\<close> is searched; \<open>cats and dogs\<close> is typed and searched before the answer.\<close>
  "supersededTrace =
     [SetQ ''cats'', DebounceFires 1000, SetQ ''cats and dogs'', DebounceFires 1400]"

definition cachedTrace :: "event list" where
  \<comment> \<open>\<open>dogs\<close> is searched and answered; \<open>cats\<close> is searched; \<open>dogs\<close> is typed again before the
      answer and served from the cache.\<close>
  "cachedTrace =
     [SetQ ''dogs'', DebounceFires 500, FetchSettles 0 dogsAnswer 600,
      SetQ ''cats'', DebounceFires 1000, SetQ ''dogs'', DebounceFires 1400]"

definition clearedTrace :: "event list" where
  \<comment> \<open>\<open>cats\<close> is searched; the input is emptied before the answer.\<close>
  "clearedTrace = [SetQ ''cats'', DebounceFires 1000, SetQ []]"

definition clearSignalTrace :: "event list" where
  \<comment> \<open>\<open>cats\<close> is searched; the clear signal comes before the answer, and the aborted request
      settles before the render.\<close>
  "clearSignalTrace =
     [SetQ ''cats'', DebounceFires 1000, ClearSignal, FetchSettles 0 catsAnswer 1300]"

section \<open>Candidate TLDs: order, bound, duplicates\<close>

lemma COMMON_distinct: "distinct COMMON"
  by (simp add: COMMON_def)

lemma preferredLoop_filter:
  "distinct cs \<Longrightarrow>
     preferredLoop tlds cs acc = acc @ filter (\<lambda>c. c \<in> set tlds \<and> c \<notin> set acc) cs"
proof (induction cs arbitrary: acc)
  case Nil
  then show ?case by simp
next
  case (Cons c cs)
  then have "c \<notin> set cs" and d: "distinct cs" by simp_all
  then have "filter (\<lambda>x. x \<in> set tlds \<and> x \<notin> set (acc @ [c])) cs
               = filter (\<lambda>x. x \<in> set tlds \<and> x \<notin> set acc) cs"
    by (intro filter_cong) auto
  with Cons.IH [OF d] show ?case
    by simp
qed

lemma preferred_eq: "preferredLoop tlds COMMON [] = filter (\<lambda>c. c \<in> set tlds) COMMON"
  by (simp add: preferredLoop_filter [OF COMMON_distinct])

lemma pickCandidateTlds_eq:
  "pickCandidateTlds tlds limit =
     take limit (filter (\<lambda>c. c \<in> set tlds) COMMON @ filter (\<lambda>t. t \<notin> set COMMON) tlds)"
proof -
  have "filter (\<lambda>t. t \<notin> set (filter (\<lambda>c. c \<in> set tlds) COMMON)) tlds
          = filter (\<lambda>t. t \<notin> set COMMON) tlds"
    by (intro filter_cong) auto
  then show ?thesis
    by (simp add: pickCandidateTlds_def preferred_eq Let_def)
qed

text \<open>
  C6, as the claim states it, fails: an input that lists a TLD outside the priority list twice
  gets it back twice.
\<close>

theorem pickCandidateTlds_duplicates:
  "\<not> distinct (pickCandidateTlds [''foo'', ''foo''] 50)"
  by code_simp

text \<open>
  C6, amended: for every TLD list and every limit, \<open>pickCandidateTlds\<close> returns the first
  \<open>limit\<close> entries of: the TLDs of the priority list that occur in the input, in priority
  order, followed by the input's other TLDs in their original order. It returns at most
  \<open>limit\<close> entries, and no entry twice when the input lists no TLD twice.
\<close>

theorem pickCandidateTlds_order:
  "pickCandidateTlds tlds limit =
     take limit (filter (\<lambda>c. c \<in> set tlds) COMMON @ filter (\<lambda>t. t \<notin> set COMMON) tlds) \<and>
   length (pickCandidateTlds tlds limit) \<le> limit \<and>
   (distinct tlds \<longrightarrow> distinct (pickCandidateTlds tlds limit))"
proof -
  let ?all = "filter (\<lambda>c. c \<in> set tlds) COMMON @ filter (\<lambda>t. t \<notin> set COMMON) tlds"
  have "distinct ?all" if "distinct tlds"
    using that COMMON_distinct by auto
  then have "distinct tlds \<longrightarrow> distinct (take limit ?all)"
    using distinct_take by blast
  moreover have "length (take limit ?all) \<le> limit"
    by simp
  ultimately show ?thesis
    unfolding pickCandidateTlds_eq by blast
qed

theorem pickCandidateTlds_order_witness:
  "distinct [''io'', ''foo'', ''com'', ''bar''] \<and>
   pickCandidateTlds [''io'', ''foo'', ''com'', ''bar''] 3 = [''com'', ''io'', ''foo''] \<and>
   distinct (pickCandidateTlds [''io'', ''foo'', ''com'', ''bar''] 3)"
  using pickCandidateTlds_order [of "[''io'', ''foo'', ''com'', ''bar'']" 3]
  by (simp add: COMMON_def)

section \<open>The request handlers\<close>

lemma trim_whitespace_only: "list_all isSpace s \<Longrightarrow> trim s = []"
  by (auto simp: trim_def list_all_iff dest: set_dropWhileD)

text \<open>
  C8: a body whose \<open>q\<close> is a string of whitespace only (the empty string among them) is
  answered \<open>{ domains: [] }\<close> with status 200 by both handlers; no provider is called, and the
  caches are left as they were.
\<close>

theorem POST_empty_query:
  "list_all isSpace s \<Longrightarrow>
     POST e st (JsonValue (Str s) tf)
       = (\<lparr>status = 200, body = JObj [(''domains'', JArr [])]\<rparr>, st, []) \<and>
     POST_plain e (JsonValue (Str s) tf)
       = (\<lparr>status = 200, body = JObj [(''domains'', JArr [])]\<rparr>, [])"
  by (simp add: POST_def POST_plain_def readBody_def trim_whitespace_only toLowerCase_def
      jsonDomains_def)

theorem POST_empty_query_witness:
  "list_all isSpace [CHR 0x20, CHR 0x09] \<and>
   POST envGenerationDown emptyState (JsonValue (Str [CHR 0x20, CHR 0x09]) Absent)
     = (\<lparr>status = 200, body = JObj [(''domains'', JArr [])]\<rparr>, emptyState, []) \<and>
   POST_plain envGenerationDown (JsonValue (Str [CHR 0x20, CHR 0x09]) Absent)
     = (\<lparr>status = 200, body = JObj [(''domains'', JArr [])]\<rparr>, [])"
  using POST_empty_query [of "[CHR 0x20, CHR 0x09]" envGenerationDown emptyState Absent]
  by (simp add: isSpace_def)

lemma generateLabel_calls:
  "snd (snd (generateLabel gen now cache oq nq fb)) = [Generate (promptOf oq)]"
  by (simp add: generateLabel_def Let_def split: sum.splits)

lemma getSearchLabelFromQuery_calls:
  "set (snd (snd (getSearchLabelFromQuery gen now cache oq nq fb))) \<subseteq> {Generate (promptOf oq)}"
  by (auto simp: getSearchLabelFromQuery_def generateLabel_calls split: option.splits)

lemma getSupportedTlds_cases:
  "getSupportedTlds e cache t = (r, cache', cs) \<Longrightarrow>
     (cs = [] \<and> (\<exists>tlds. r = Inr tlds)) \<or>
     (cs = [SupportedTlds t] \<and> (\<exists>err. supportedTlds e t = Inl err \<and> r = Inl err)) \<or>
     (cs = [SupportedTlds t] \<and> (\<exists>a. supportedTlds e t = Inr a \<and> r = Inr (cleanTlds a)))"
  by (auto simp: getSupportedTlds_def Let_def split: option.splits sum.splits if_splits)

lemma POST_failure:
  "(SupportedTlds t \<in> set (snd (snd (POST e st b))) \<and> supportedTlds e t = Inl err \<longrightarrow>
      fst (POST e st b) = \<lparr>status = 500, body = JObj [(''error'', JStr (message err))]\<rparr>) \<and>
   (BulkAvailability t ds \<in> set (snd (snd (POST e st b))) \<and> bulkAvailabilityOf e t ds = Inl err \<longrightarrow>
      fst (POST e st b) = \<lparr>status = 500, body = JObj [(''error'', JStr (message err))]\<rparr>)"
proof (cases "readBody b")
  case (Inl a)
  then show ?thesis by (simp add: POST_def)
next
  case (Inr p)
  obtain query teamId where p: "p = (query, teamId)" by (cases p)
  show ?thesis
  proof (cases "query = []")
    case True
    with Inr p show ?thesis by (simp add: POST_def)
  next
    case False
    obtain label lc cs1 where
      L: "getSearchLabelFromQuery (generateText e) (nowLabel e) (labelCache st) query
            (stripLeadingDot query) [] = (label, lc, cs1)"
      by (metis prod_cases3)
    obtain r tc cs2 where T: "getSupportedTlds e (tldsCache st) teamId = (r, tc, cs2)"
      by (metis prod_cases3)
    from L getSearchLabelFromQuery_calls [of "generateText e" "nowLabel e" "labelCache st" query
        "stripLeadingDot query" "[]"]
    have cs1: "set cs1 \<subseteq> {Generate (promptOf query)}" by simp
    from getSupportedTlds_cases [OF T] show ?thesis
      using Inr p False L T cs1
      by (auto simp: POST_def Let_def jsonError_def split: sum.splits)
  qed
qed

lemma POST_plain_failure:
  "(SupportedTlds t \<in> set (snd (POST_plain e b)) \<and> supportedTlds e t = Inl err \<longrightarrow>
      fst (POST_plain e b) = \<lparr>status = 500, body = JObj [(''error'', JStr (message err))]\<rparr>) \<and>
   (BulkAvailability t ds \<in> set (snd (POST_plain e b)) \<and> bulkAvailabilityOf e t ds = Inl err \<longrightarrow>
      fst (POST_plain e b) = \<lparr>status = 500, body = JObj [(''error'', JStr (message err))]\<rparr>)"
proof (cases "readBody b")
  case (Inl a)
  then show ?thesis by (simp add: POST_plain_def)
next
  case (Inr p)
  obtain query teamId where p: "p = (query, teamId)" by (cases p)
  with Inr show ?thesis
    by (auto simp: POST_plain_def Let_def jsonError_def split: sum.splits)
qed

text \<open>
  C9, as the claim states it, fails: the text generation is an upstream call awaited while the
  request is handled, and when it throws the handler still answers with status 200 (the label
  falls back inside \<open>getSearchLabelFromQuery\<close>).
\<close>

theorem POST_generation_failure_is_success:
  "generateText envGenerationDown (promptOf ''my cool idea'') = Inl (Error ''gateway unavailable'') \<and>
   fst (POST envGenerationDown emptyState (JsonValue (Str ''my cool idea'') Absent))
     = \<lparr>status = 200,
        body = JObj [(''domains'',
                 JArr [JStr ''mycool idea.com'', JStr ''mycool idea.net'', JStr ''mycool idea.io''])]\<rparr> \<and>
   snd (snd (POST envGenerationDown emptyState (JsonValue (Str ''my cool idea'') Absent)))
     = [Generate (promptOf ''my cool idea''), SupportedTlds None,
        BulkAvailability None [''mycool idea.com'', ''mycool idea.net'', ''mycool idea.io'']]"
  by (simp add: envGenerationDown_def emptyState_def POST_def readBody_def trim_def toLowerCase_def
      toLowerChar_def isSpace_def stripLeadingDot_def getSearchLabelFromQuery_def
      testWhitespace_def generateLabel_def fallbackOf_def removeWhitespace_def orElse_def
      getSupportedTlds_def cleanTlds_def looksLikeDomainOf_def buildDomainsToCheck_def
      pickCandidateTlds_def COMMON_def jsonDomains_def Let_def)

text \<open>
  C9, amended: when a call to the registrar that the handler made has failed (the
  supported-TLD call or the bulk availability call), the handler answers
  \<open>{ error: message }\<close> with status 500, in both handlers; such a failure is never answered
  with a success.
\<close>

theorem POST_registrar_failure:
  "(SupportedTlds t \<in> set (snd (snd (POST e st b))) \<and> supportedTlds e t = Inl err \<longrightarrow>
      fst (POST e st b) = \<lparr>status = 500, body = JObj [(''error'', JStr (message err))]\<rparr>) \<and>
   (BulkAvailability t ds \<in> set (snd (snd (POST e st b))) \<and> bulkAvailabilityOf e t ds = Inl err \<longrightarrow>
      fst (POST e st b) = \<lparr>status = 500, body = JObj [(''error'', JStr (message err))]\<rparr>) \<and>
   (SupportedTlds t \<in> set (snd (POST_plain e b)) \<and> supportedTlds e t = Inl err \<longrightarrow>
      fst (POST_plain e b) = \<lparr>status = 500, body = JObj [(''error'', JStr (message err))]\<rparr>) \<and>
   (BulkAvailability t ds \<in> set (snd (POST_plain e b)) \<and> bulkAvailabilityOf e t ds = Inl err \<longrightarrow>
      fst (POST_plain e b) = \<lparr>status = 500, body = JObj [(''error'', JStr (message err))]\<rparr>)"
  using POST_failure [of t e st b err ds] POST_plain_failure [of t e b err ds]
  by blast

theorem POST_registrar_failure_witness:
  "SupportedTlds None
     \<in> set (snd (snd (POST envTldsDown emptyState (JsonValue (Str ''my cool idea'') Absent)))) \<and>
   SupportedTlds None \<in> set (snd (POST_plain envTldsDown (JsonValue (Str ''my cool idea'') Absent))) \<and>
   supportedTlds envTldsDown None = Inl (Error ''registrar unavailable'') \<and>
   fst (POST envTldsDown emptyState (JsonValue (Str ''my cool idea'') Absent))
     = \<lparr>status = 500, body = JObj [(''error'', JStr ''registrar unavailable'')]\<rparr> \<and>
   fst (POST_plain envTldsDown (JsonValue (Str ''my cool idea'') Absent))
     = \<lparr>status = 500, body = JObj [(''error'', JStr ''registrar unavailable'')]\<rparr> \<and>
   BulkAvailability None [''example.com'']
     \<in> set (snd (snd (POST envBulkDown emptyState (JsonValue (Str ''example.com'') Absent)))) \<and>
   BulkAvailability None [''example.com'']
     \<in> set (snd (POST_plain envBulkDown (JsonValue (Str ''example.com'') Absent))) \<and>
   bulkAvailabilityOf envBulkDown None [''example.com''] = Inl (Error ''bad response'') \<and>
   fst (POST envBulkDown emptyState (JsonValue (Str ''example.com'') Absent))
     = \<lparr>status = 500, body = JObj [(''error'', JStr ''bad response'')]\<rparr> \<and>
   fst (POST_plain envBulkDown (JsonValue (Str ''example.com'') Absent))
     = \<lparr>status = 500, body = JObj [(''error'', JStr ''bad response'')]\<rparr>"
proof -
  have a: "SupportedTlds None
     \<in> set (snd (snd (POST envTldsDown emptyState (JsonValue (Str ''my cool idea'') Absent))))"
    by (simp add: envTldsDown_def emptyState_def POST_def readBody_def trim_def toLowerCase_def
        toLowerChar_def isSpace_def stripLeadingDot_def getSupportedTlds_def Let_def
        split: prod.splits)
  have a': "SupportedTlds None
     \<in> set (snd (POST_plain envTldsDown (JsonValue (Str ''my cool idea'') Absent)))"
    by (simp add: envTldsDown_def POST_plain_def readBody_def trim_def toLowerCase_def
        toLowerChar_def isSpace_def Let_def)
  have b: "supportedTlds envTldsDown None = Inl (Error ''registrar unavailable'')"
    by (simp add: envTldsDown_def)
  have c: "BulkAvailability None [''example.com'']
     \<in> set (snd (snd (POST envBulkDown emptyState (JsonValue (Str ''example.com'') Absent))))"
    by (simp add: envBulkDown_def emptyState_def POST_def readBody_def trim_def toLowerCase_def
        toLowerChar_def isSpace_def stripLeadingDot_def getSupportedTlds_def cleanTlds_def
        looksLikeDomainOf_def buildDomainsToCheck_def Let_def split: prod.splits)
  have c': "BulkAvailability None [''example.com'']
     \<in> set (snd (POST_plain envBulkDown (JsonValue (Str ''example.com'') Absent)))"
    by (simp add: envBulkDown_def POST_plain_def readBody_def trim_def toLowerCase_def
        toLowerChar_def isSpace_def stripLeadingDot_def cleanTlds_def looksLikeDomainOf_def
        Let_def)
  have d: "bulkAvailabilityOf envBulkDown None [''example.com''] = Inl (Error ''bad response'')"
    by (simp add: envBulkDown_def)
  from a a' b c c' d
    POST_registrar_failure [where t = None and e = envTldsDown and st = emptyState
      and b = "JsonValue (Str ''my cool idea'') Absent" and err = "Error ''registrar unavailable''"]
    POST_registrar_failure [where t = None and e = envBulkDown and st = emptyState
      and b = "JsonValue (Str ''example.com'') Absent" and ds = "[''example.com'']"
      and err = "Error ''bad response''"]
  show ?thesis by simp
qed

text \<open>
  In full-domain mode the one domain checked is the normalized query, whatever the label and
  the TLD list are.
\<close>

lemma POST_full_domain:
  assumes "looksLikeDomainOf (toLowerCase (trim s))"
    and "BulkAvailability t ds \<in> set (snd (snd (POST e st (JsonValue (Str s) tf))))"
  shows "ds = [stripLeadingDot (toLowerCase (trim s))]"
proof -
  let ?q = "toLowerCase (trim s)"
  from assms(1) have ne: "?q \<noteq> []" by (auto simp: looksLikeDomainOf_def)
  obtain label lc cs1 where
    L: "getSearchLabelFromQuery (generateText e) (nowLabel e) (labelCache st) ?q
          (stripLeadingDot ?q) [] = (label, lc, cs1)"
    by (metis prod_cases3)
  obtain r tc cs2 where T: "getSupportedTlds e (tldsCache st) (case tf of Str t \<Rightarrow> if t \<noteq> [] then Some t else None | _ \<Rightarrow> None) = (r, tc, cs2)"
    by (metis prod_cases3)
  from L getSearchLabelFromQuery_calls [of "generateText e" "nowLabel e" "labelCache st" ?q
      "stripLeadingDot ?q" "[]"]
  have cs1: "set cs1 \<subseteq> {Generate (promptOf ?q)}" by simp
  from getSupportedTlds_cases [OF T] show ?thesis
    using assms ne L T cs1
    by (auto simp: POST_def readBody_def Let_def buildDomainsToCheck_def split: sum.splits)
qed

text \<open>
  C5: the handler takes \<open>"a.b\tc"\<close> for a full domain although it contains whitespace (a tab):
  the test reads \<open>!q.includes(" ")\<close>. The same request is multi-word for
  \<open>getSearchLabelFromQuery\<close>, whose test is \<open>WHITESPACE_RE\<close>: a label is generated for it, then
  dropped, and the query with its tab is the one domain checked.
\<close>

theorem looksLikeDomain_with_tab:
  "testWhitespace tabQuery \<and> looksLikeDomainOf tabQuery \<and>
   snd (snd (POST envAllUp emptyState (JsonValue (Str tabQuery) Absent)))
     = [Generate (promptOf tabQuery), SupportedTlds None, BulkAvailability None [tabQuery]]"
  by code_simp

section \<open>The search label\<close>

text \<open>
  What holds of \<open>getSearchLabelFromQuery\<close> on every path of a multi-word query: the label
  returned is stored under the raw query, and after a generation call the same raw query, asked
  again within the TTL, is answered from the cache without a call.
\<close>

lemma generateLabel_result:
  "generateLabel gen now cache oq nq fb =
     (let label = (case gen (promptOf oq) of
                     Inr title \<Rightarrow> orElse (labelOfTitle title) (fallbackOf nq fb)
                   | Inl e \<Rightarrow> fallbackOf nq fb)
      in (label, cache(oq \<mapsto> (label, now)), [Generate (promptOf oq)]))"
  by (simp add: generateLabel_def orElse_def Let_def split: sum.splits)

lemma getSearchLabelFromQuery_stores:
  assumes "testWhitespace oq"
    and "getSearchLabelFromQuery gen now cache oq nq fb = (label, cache', cs)"
  shows "\<exists>ts. cache' oq = Some (label, ts) \<and> now - ts < LABEL_CACHE_TTL \<and> (cs \<noteq> [] \<longrightarrow> ts = now)"
  using assms
  by (auto simp: getSearchLabelFromQuery_def generateLabel_result Let_def LABEL_CACHE_TTL_def
      split: option.splits if_splits)

lemma getSearchLabelFromQuery_repeat:
  assumes "testWhitespace oq"
    and "getSearchLabelFromQuery gen now cache oq nq fb = (label, cache', cs)"
    and "cs \<noteq> []" and "now' - now < LABEL_CACHE_TTL"
  shows "getSearchLabelFromQuery gen' now' cache' oq nq' fb' = (label, cache', [])"
proof -
  from getSearchLabelFromQuery_stores [OF assms(1,2)] assms(3)
  have "cache' oq = Some (label, now)" by auto
  with assms(1,4) show ?thesis
    by (simp add: getSearchLabelFromQuery_def)
qed

text \<open>
  C2: for \<open>my cool idea\<close> and a generation that throws, the label returned and cached is
  \<open>mycool idea\<close>: the fallback removes the first run of whitespace only, since
  \<open>WHITESPACE_RE\<close> has no \<open>g\<close> flag.
\<close>

theorem getSearchLabelFromQuery_fallback_keeps_space:
  "generateText envGenerationDown (promptOf ''my cool idea'') = Inl (Error ''gateway unavailable'') \<and>
   fst (getSearchLabelFromQuery (generateText envGenerationDown) 1000 (labelCache emptyState)
          ''my cool idea'' ''my cool idea'' [])
     = ''mycool idea'' \<and>
   fst (snd (getSearchLabelFromQuery (generateText envGenerationDown) 1000 (labelCache emptyState)
          ''my cool idea'' ''my cool idea'' [])) ''my cool idea''
     = Some (''mycool idea'', 1000) \<and>
   snd (snd (getSearchLabelFromQuery (generateText envGenerationDown) 1000 (labelCache emptyState)
          ''my cool idea'' ''my cool idea'' []))
     = [Generate (promptOf ''my cool idea'')]"
  by (simp add: envGenerationDown_def emptyState_def getSearchLabelFromQuery_def testWhitespace_def
      isSpace_def generateLabel_def fallbackOf_def removeWhitespace_def orElse_def Let_def)



























section \<open>The payload of the response\<close>

lemma normalizeDomainPayload_object:
  "normalizeDomainPayload (JObj kvs) =
     Inr (case firstArray
               [case map_of kvs ''results'' of None \<Rightarrow> JUndefined | Some v \<Rightarrow> v,
                case map_of kvs ''domains'' of None \<Rightarrow> JUndefined | Some v \<Rightarrow> v,
                case map_of kvs ''domains'' of
                  Some (JObj d) \<Rightarrow> (case map_of d ''results'' of None \<Rightarrow> JUndefined | Some v \<Rightarrow> v)
                | _ \<Rightarrow> JUndefined] of
             Some xs \<Rightarrow> xs
           | None \<Rightarrow> [JObj kvs])"
  by (simp add: normalizeDomainPayload_def split: option.splits json.splits)

text \<open>
  C10: \<open>normalizeDomainPayload\<close> returns for every value (no property read throws). An array
  is returned as it is; \<open>null\<close>, \<open>undefined\<close> and the primitives give the empty list; an
  object gives the first array among its \<open>results\<close>, its \<open>domains\<close> and the \<open>results\<close> of its
  \<open>domains\<close>; an object with no array in these places is wrapped in a list of one.
\<close>

theorem normalizeDomainPayload_cases:
  "(\<exists>r. normalizeDomainPayload p = Inr r) \<and>
   normalizeDomainPayload (JArr xs) = Inr xs \<and>
   (p = JNull \<or> p = JUndefined \<or> (\<exists>b. p = JBool b) \<or> (\<exists>n. p = JNum n) \<or> (\<exists>s. p = JStr s)
      \<longrightarrow> normalizeDomainPayload p = Inr []) \<and>
   (map_of o1 ''results'' = Some (JArr xs) \<longrightarrow> normalizeDomainPayload (JObj o1) = Inr xs) \<and>
   ((\<forall>ys. map_of o2 ''results'' \<noteq> Some (JArr ys)) \<and> map_of o2 ''domains'' = Some (JArr xs)
      \<longrightarrow> normalizeDomainPayload (JObj o2) = Inr xs) \<and>
   ((\<forall>ys. map_of o3 ''results'' \<noteq> Some (JArr ys)) \<and> map_of o3 ''domains'' = Some (JObj d) \<and>
    map_of d ''results'' = Some (JArr xs)
      \<longrightarrow> normalizeDomainPayload (JObj o3) = Inr xs) \<and>
   ((\<forall>ys. map_of o4 ''results'' \<noteq> Some (JArr ys)) \<and>
    (\<forall>ys. map_of o4 ''domains'' \<noteq> Some (JArr ys)) \<and>
    (\<forall>d' ys. map_of o4 ''domains'' = Some (JObj d') \<longrightarrow> map_of d' ''results'' \<noteq> Some (JArr ys))
      \<longrightarrow> normalizeDomainPayload (JObj o4) = Inr [JObj o4])"
proof (intro conjI impI)
  show "\<exists>r. normalizeDomainPayload p = Inr r"
    by (cases p) (simp_all add: normalizeDomainPayload_object, simp_all add: normalizeDomainPayload_def)
  show "normalizeDomainPayload (JArr xs) = Inr xs"
    by (simp add: normalizeDomainPayload_def)
  show "normalizeDomainPayload p = Inr []"
    if "p = JNull \<or> p = JUndefined \<or> (\<exists>b. p = JBool b) \<or> (\<exists>n. p = JNum n) \<or> (\<exists>s. p = JStr s)"
    using that by (auto simp: normalizeDomainPayload_def)
  show "normalizeDomainPayload (JObj o1) = Inr xs" if "map_of o1 ''results'' = Some (JArr xs)"
    using that by (simp add: normalizeDomainPayload_object)
  show "normalizeDomainPayload (JObj o2) = Inr xs"
    if "(\<forall>ys. map_of o2 ''results'' \<noteq> Some (JArr ys)) \<and> map_of o2 ''domains'' = Some (JArr xs)"
    using that by (cases "map_of o2 ''results''"; cases "the (map_of o2 ''results'')")
      (simp_all add: normalizeDomainPayload_object)
  show "normalizeDomainPayload (JObj o3) = Inr xs"
    if "(\<forall>ys. map_of o3 ''results'' \<noteq> Some (JArr ys)) \<and> map_of o3 ''domains'' = Some (JObj d) \<and>
        map_of d ''results'' = Some (JArr xs)"
    using that by (cases "map_of o3 ''results''"; cases "the (map_of o3 ''results'')")
      (simp_all add: normalizeDomainPayload_object)
  show "normalizeDomainPayload (JObj o4) = Inr [JObj o4]"
    if "(\<forall>ys. map_of o4 ''results'' \<noteq> Some (JArr ys)) \<and>
        (\<forall>ys. map_of o4 ''domains'' \<noteq> Some (JArr ys)) \<and>
        (\<forall>d' ys. map_of o4 ''domains'' = Some (JObj d') \<longrightarrow> map_of d' ''results'' \<noteq> Some (JArr ys))"
  proof -
    have r: "firstArray (v # cs) = firstArray cs" if "\<forall>ys. v \<noteq> JArr ys" for v cs
      using that by (cases v) simp_all
    show ?thesis
      using that
      by (auto simp: normalizeDomainPayload_object r split: option.splits json.splits)
  qed
qed

theorem normalizeDomainPayload_cases_witness:
  "normalizeDomainPayload (JStr ''oops'') = Inr [] \<and>
   normalizeDomainPayload (JArr [JStr ''a.com'']) = Inr [JStr ''a.com''] \<and>
   normalizeDomainPayload (JObj [(''results'', JArr [JStr ''a.com''])]) = Inr [JStr ''a.com''] \<and>
   normalizeDomainPayload (JObj [(''results'', JNull), (''domains'', JArr [JStr ''a.com''])])
     = Inr [JStr ''a.com''] \<and>
   normalizeDomainPayload (JObj [(''domains'', JObj [(''results'', JArr [JStr ''a.com''])])])
     = Inr [JStr ''a.com''] \<and>
   normalizeDomainPayload (JObj [(''error'', JStr ''boom'')]) = Inr [JObj [(''error'', JStr ''boom'')]]"
  using normalizeDomainPayload_cases
    [where p = "JStr ''oops''" and xs = "[JStr ''a.com'']"
       and ?o1.0 = "[(''results'', JArr [JStr ''a.com''])]"
       and ?o2.0 = "[(''results'', JNull), (''domains'', JArr [JStr ''a.com''])]"
       and ?o3.0 = "[(''domains'', JObj [(''results'', JArr [JStr ''a.com''])])]"
       and d = "[(''results'', JArr [JStr ''a.com''])]"
       and ?o4.0 = "[(''error'', JStr ''boom'')]"]
  by simp

section \<open>The search coordinator\<close>

text \<open>
  An empty \<open>q\<close> typed after a non-empty one, and the listener of the clear signal, reset the
  component in the same step and send nothing; an aborted request resolves to \<open>[]\<close>.
\<close>

lemma resetSearch_state:
  "results (resetSearch c) = [] \<and> \<not> loading (resetSearch c) \<and> urlQ (resetSearch c) = None \<and>
   debounceRef (resetSearch c) = None \<and> fetchAbortRef (resetSearch c) = None \<and>
   sent (resetSearch c) = sent c \<and> inFlight (resetSearch c) = inFlight c \<and>
   set (abortedControllers (resetSearch c)) = set (abortedControllers c) \<union> set_option (fetchAbortRef c)"
  by (auto simp: resetSearch_def abortCurrent_def split: option.splits)

lemma typed_empty_query_resets:
  assumes "q c \<noteq> []"
  shows "q (step c (SetQ [])) = [] \<and> results (step c (SetQ [])) = [] \<and>
     \<not> loading (step c (SetQ [])) \<and> urlQ (step c (SetQ [])) = None \<and>
     debounceRef (step c (SetQ [])) = None \<and> fetchAbortRef (step c (SetQ [])) = None \<and>
     sent (step c (SetQ [])) = sent c \<and>
     set (abortedControllers (step c (SetQ [])))
       = set (abortedControllers c) \<union> set_option (fetchAbortRef c)"
  using assms
  by (auto simp: setQ_def queryEffect_def resetSearch_def abortCurrent_def split: option.splits)

lemma clear_signal_resets:
  "results (step c ClearSignal) = [] \<and> \<not> loading (step c ClearSignal) \<and>
   urlQ (step c ClearSignal) = None \<and> debounceRef (step c ClearSignal) = None \<and>
   fetchAbortRef (step c ClearSignal) = None \<and> sent (step c ClearSignal) = sent c \<and>
   pendingQ (step c ClearSignal) = Some [] \<and>
   set (abortedControllers (step c ClearSignal))
     = set (abortedControllers c) \<union> set_option (fetchAbortRef c)"
  by (auto simp: onClear_def resetSearch_def abortCurrent_def split: option.splits)

lemma aborted_fetch_resolves_empty: "fetchDomains True outcome = []"
  by (simp add: fetchDomains_def)

text \<open>
  C1: the controller of \<open>cats\<close> is aborted when \<open>cats and dogs\<close> is searched, and
  \<open>fetchDomains\<close> resolves to \<open>[]\<close> for it; \<open>runSearch\<close> then goes on as after any answer. While
  \<open>cats and dogs\<close> is still awaited it stops \<open>loading\<close>, sets the URL to \<open>cats\<close> and caches
  \<open>[]\<close> for \<open>cats\<close>. When the newer search was served from the cache (\<open>cachedTrace\<close>), its
  results are replaced by \<open>[]\<close> for good.
\<close>

theorem superseded_search_overwrites:
  "loading (run mounted supersededTrace) \<and>
   inFlight (run mounted supersededTrace) = [(0, ''cats''), (1, ''cats and dogs'')] \<and>
   abortedControllers (run mounted supersededTrace) = [0] \<and>
   \<not> loading (run mounted (supersededTrace @ [FetchSettles 0 catsAnswer 1401])) \<and>
   inFlight (run mounted (supersededTrace @ [FetchSettles 0 catsAnswer 1401]))
     = [(1, ''cats and dogs'')] \<and>
   urlQ (run mounted (supersededTrace @ [FetchSettles 0 catsAnswer 1401])) = Some ''cats'' \<and>
   getCachedSearch 2000
       (searchCache (run mounted (supersededTrace @ [FetchSettles 0 catsAnswer 1401]))) ''cats''
     = Some [] \<and>
   results (run mounted cachedTrace)
     = [JObj [(''domain'', JStr ''dogs.com''), (''available'', JBool False)]] \<and>
   urlQ (run mounted cachedTrace) = Some ''dogs'' \<and>
   q (run mounted (cachedTrace @ [FetchSettles 1 catsAnswer 1401])) = ''dogs'' \<and>
   results (run mounted (cachedTrace @ [FetchSettles 1 catsAnswer 1401])) = [] \<and>
   urlQ (run mounted (cachedTrace @ [FetchSettles 1 catsAnswer 1401])) = Some ''cats''"
  by code_simp

text \<open>
  After the clear signal the request aborted by the listener settles before the render:
  \<open>runSearch\<close> puts \<open>q=cats\<close> into the URL and caches \<open>[]\<close> for \<open>cats\<close>; the effect of the render
  that follows removes \<open>q\<close> from the URL again.
\<close>

lemma clear_signal_then_render:
  "urlQ (run mounted clearSignalTrace) = Some ''cats'' \<and>
   pendingQ (run mounted clearSignalTrace) = Some [] \<and>
   q (run mounted (clearSignalTrace @ [Render])) = [] \<and>
   urlQ (run mounted (clearSignalTrace @ [Render])) = None \<and>
   sent (run mounted (clearSignalTrace @ [Render])) = [''cats''] \<and>
   getCachedSearch 2000 (searchCache (run mounted (clearSignalTrace @ [Render]))) ''cats''
     = Some []"
  by code_simp

text \<open>
  C7: emptying the input by typing resets the component at once and sends nothing; but the
  request it aborted still settles, and \<open>runSearch\<close> then puts \<open>q=cats\<close> back into the URL (and
  caches \<open>[]\<close> for \<open>cats\<close>); no later effect removes it.
\<close>

theorem cleared_url_is_set_again:
  "results (run mounted clearedTrace) = [] \<and>
   \<not> loading (run mounted clearedTrace) \<and>
   urlQ (run mounted clearedTrace) = None \<and>
   debounceRef (run mounted clearedTrace) = None \<and>
   abortedControllers (run mounted clearedTrace) = [0] \<and>
   sent (run mounted clearedTrace) = [''cats''] \<and>
   q (run mounted (clearedTrace @ [FetchSettles 0 catsAnswer 1300])) = [] \<and>
   urlQ (run mounted (clearedTrace @ [FetchSettles 0 catsAnswer 1300])) = Some ''cats'' \<and>
   getCachedSearch 2000
       (searchCache (run mounted (clearedTrace @ [FetchSettles 0 catsAnswer 1300]))) ''cats''
     = Some []"
  by code_simp

end
